theory Spec2Isabelle
  imports Complex_Main
begin

section \<open>Conversation-summary chains (mkt\_conversation\_summary.py)\<close>

text \<open>
  The module defines two families of summary chains. The InternLM2 family
  (\<open>Iternlm2Chat7BMKTConversationSummaryChain\<close>) validates the chat history, pairs it up,
  renders a prompt and a priming prefix, calls the inherited model chain and prepends the
  prefix to the model's output. The Claude family (\<open>Claude2MKTConversationSummaryChain\<close> and
  its two subclasses) only fixes the query instruction and delegates to the inherited chat
  chain.

  Python strings are modelled as \<open>string\<close>; the non-ASCII characters of the source's
  literals are written as their UTF-8 bytes. Nothing in the module measures a string, so
  concatenation of byte strings agrees with concatenation of the Python strings; the one
  place that could iterate over a string, character by character, is \<open>iter_str\<close> below.
\<close>

subsection \<open>Exceptions\<close>

text \<open>
  The exceptions the module can raise by itself: a failed \<open>assert\<close>, an index or key that
  is not there, and a \<open>+\<close> between a string and something else. \<open>ModelError\<close> stands
  for whatever the inherited model chain raises; this module neither catches nor wraps it.
\<close>

datatype error = AssertionError | IndexError | KeyError | TypeError | ModelError string

subsection \<open>Messages\<close>

text \<open>
  Modelled from the spec: the constants \<open>HUMAN_MESSAGE_TYPE\<close>, \<open>AI_MESSAGE_TYPE\<close> and
  \<open>SYSTEM_MESSAGE_TYPE\<close> come from the module \<open>constant\<close>, which is not among the sources.
  The spec's data model gives a message a type among human, assistant and system; the three
  constants are the three values of that type.
\<close>

datatype message_type = HUMAN_MESSAGE_TYPE | AI_MESSAGE_TYPE | SYSTEM_MESSAGE_TYPE

record message =
  type :: message_type
  content :: string

subsection \<open>The returned prompt dictionary and the request\<close>

text \<open>
  \<open>_create_prompt\<close> returns the dictionary \<open>{"prompt": prompt, "prefix": prefix}\<close>. Its two
  keys are the fields \<open>pb_prompt\<close> and \<open>pb_prefix\<close>, named apart from the request's own keys
  \<open>prompt\<close> and \<open>prefix\<close>.
\<close>

record prompt_bundle =
  pb_prompt :: string
  pb_prefix :: string

text \<open>
  What the inherited model chain returns: a complete text, or an iterator of chunks. An
  iterator is modelled by the chunks it yields and by how it ends: \<open>None\<close> when it is
  exhausted, \<open>Some e\<close> when it raises \<open>e\<close> after the last chunk.
\<close>

datatype llm_result = Text string | Stream "string list" "error option"

text \<open>
  The request \<open>x\<close> is a dictionary. Each key the module reads or assigns is a field, \<open>None\<close>
  when the key is absent; any other key lives in the record's extension and is carried along
  by every update, as \<open>RunnablePassthrough.assign\<close> carries it along.
\<close>

record request =
  chat_history :: "message list option"
  query :: "string option"
  prompt_dict :: "prompt_bundle option"
  prompt :: "string option"
  prefix :: "string option"
  llm_output :: "llm_result option"

subsection \<open>String literals of the source\<close>

text \<open>The two-character word meaning "question" that starts every numbered line.\<close>

definition wenti :: string where
  "wenti = [CHR 0xE9, CHR 0x97, CHR 0xAE, CHR 0xE9, CHR 0xA2, CHR 0x98]"

text \<open>The two-character word meaning "summary" that ends the prefix.\<close>

definition zongjie :: string where
  "zongjie = [CHR 0xE6, CHR 0x80, CHR 0xBB, CHR 0xE7, CHR 0xBB, CHR 0x93]"

text \<open>
  \<open>query_input\<close> of \<open>_create_prompt\<close> (line 41): "please summarise the conversation above,
  one summary for each turn", with its final newline.
\<close>

definition Iternlm2_query_input :: string where
  "Iternlm2_query_input =
    [CHR 0xE8, CHR 0xAF, CHR 0xB7, CHR 0xE6, CHR 0x80, CHR 0xBB, CHR 0xE7, CHR 0xBB, CHR 0x93,
     CHR 0xE4, CHR 0xB8, CHR 0x8A, CHR 0xE8, CHR 0xBF, CHR 0xB0, CHR 0xE5, CHR 0xAF, CHR 0xB9,
     CHR 0xE8, CHR 0xAF, CHR 0x9D, CHR 0xE4, CHR 0xB8, CHR 0xAD, CHR 0xE7, CHR 0x9A, CHR 0x84,
     CHR 0xE5, CHR 0x86, CHR 0x85, CHR 0xE5, CHR 0xAE, CHR 0xB9, CHR 0x2C, CHR 0xE6, CHR 0xAF,
     CHR 0x8F, CHR 0xE4, CHR 0xB8, CHR 0x80, CHR 0xE8, CHR 0xBD, CHR 0xAE, CHR 0xE5, CHR 0xAF,
     CHR 0xB9, CHR 0xE8, CHR 0xAF, CHR 0x9D, CHR 0xE5, CHR 0x8D, CHR 0x95, CHR 0xE7, CHR 0x8B,
     CHR 0xAC, CHR 0xE4, CHR 0xB8, CHR 0x80, CHR 0xE4, CHR 0xB8, CHR 0xAA, CHR 0xE6, CHR 0x80,
     CHR 0xBB, CHR 0xE7, CHR 0xBB, CHR 0x93, CHR 0xE3, CHR 0x80, CHR 0x82, CHR 0x0A]"

text \<open>
  The three fixed pieces of \<open>prompt_assist\<close> (line 47): "all right, according to the
  conversation history provided, there are", then (after the count) "conversations", then
  (after the numbered questions) "their summaries are as follows (each summary first repeats
  the question)".
\<close>

definition assist_opening :: string where
  "assist_opening =
    [CHR 0xE5, CHR 0xA5, CHR 0xBD, CHR 0xE7, CHR 0x9A, CHR 0x84, CHR 0xEF, CHR 0xBC, CHR 0x8C,
     CHR 0xE6, CHR 0xA0, CHR 0xB9, CHR 0xE6, CHR 0x8D, CHR 0xAE, CHR 0xE6, CHR 0x8F, CHR 0x90,
     CHR 0xE4, CHR 0xBE, CHR 0x9B, CHR 0xE5, CHR 0x8E, CHR 0x86, CHR 0xE5, CHR 0x8F, CHR 0xB2,
     CHR 0xE5, CHR 0xAF, CHR 0xB9, CHR 0xE8, CHR 0xAF, CHR 0x9D, CHR 0xE4, CHR 0xBF, CHR 0xA1,
     CHR 0xE6, CHR 0x81, CHR 0xAF, CHR 0xEF, CHR 0xBC, CHR 0x8C, CHR 0xE5, CHR 0x85, CHR 0xB1,
     CHR 0xE6, CHR 0x9C, CHR 0x89]"

definition assist_turns :: string where
  "assist_turns =
    [CHR 0xE6, CHR 0xAE, CHR 0xB5, CHR 0xE5, CHR 0xAF, CHR 0xB9, CHR 0xE8, CHR 0xAF, CHR 0x9D]"

definition assist_closing :: string where
  "assist_closing =
    [CHR 0xE5, CHR 0xAF, CHR 0xB9, CHR 0xE5, CHR 0xAE, CHR 0x83, CHR 0xE4, CHR 0xBB, CHR 0xAC,
     CHR 0xE7, CHR 0x9A, CHR 0x84, CHR 0xE6, CHR 0x80, CHR 0xBB, CHR 0xE7, CHR 0xBB, CHR 0x93,
     CHR 0xE5, CHR 0xA6, CHR 0x82, CHR 0xE4, CHR 0xB8, CHR 0x8B, CHR 0x28, CHR 0xE6, CHR 0xAF,
     CHR 0x8F, CHR 0xE4, CHR 0xB8, CHR 0x80, CHR 0xE4, CHR 0xB8, CHR 0xAA, CHR 0xE6, CHR 0x80,
     CHR 0xBB, CHR 0xE7, CHR 0xBB, CHR 0x93, CHR 0xE8, CHR 0xA6, CHR 0x81, CHR 0xE5, CHR 0x85,
     CHR 0x88, CHR 0xE5, CHR 0xA4, CHR 0x8D, CHR 0xE8, CHR 0xBF, CHR 0xB0, CHR 0xE4, CHR 0xB8,
     CHR 0x80, CHR 0xE4, CHR 0xB8, CHR 0x8B, CHR 0xE9, CHR 0x97, CHR 0xAE, CHR 0xE9, CHR 0xA2,
     CHR 0x98, CHR 0x29]"

subsection \<open>Formatting an integer in an f-string\<close>

text \<open>
  \<open>{i+1}\<close> and \<open>{len(history)}\<close> print a non-negative integer in decimal, without leading
  zeros.
\<close>

definition digit :: "nat \<Rightarrow> char" where
  "digit d = ''0123456789'' ! d"

function str_int :: "nat \<Rightarrow> string" where
  "str_int n = (if n < 10 then [digit n] else str_int (n div 10) @ [digit (n mod 10)])"
  by pat_completeness auto
termination
  by (relation "measure id") auto

declare str_int.simps [simp del]

subsection \<open>The pairing loop of \_create\_prompt (lines 29 to 35)\<close>

text \<open>
  \<open>for i in range(0, len(chat_history), 2)\<close>, with the two lists it appends to. The two
  \<open>assert\<close>s raise \<open>AssertionError\<close>; reading \<open>chat_history[i+1]\<close> past the end raises
  \<open>IndexError\<close>. The argument \<open>ch\<close> is the local \<open>chat_history\<close>.
\<close>

function pair_loop ::
  "message list \<Rightarrow> nat \<Rightarrow> (string \<times> string) list \<Rightarrow> string list
    \<Rightarrow> error + ((string \<times> string) list \<times> string list)" where
  "pair_loop ch i history questions =
     (if i < length ch then
        if type (ch ! i) \<noteq> HUMAN_MESSAGE_TYPE then Inl AssertionError
        else if \<not> i + 1 < length ch then Inl IndexError
        else if type (ch ! (i + 1)) \<noteq> AI_MESSAGE_TYPE then Inl AssertionError
        else pair_loop ch (i + 2)
               (history @ [(content (ch ! i), content (ch ! (i + 1)))])
               (questions @ [content (ch ! i)])
      else Inr (history, questions))"
  by pat_completeness auto
termination
  by (relation "measure (\<lambda>(ch, i, history, questions). length ch - i)") auto

declare pair_loop.simps [simp del]

subsection \<open>The numbering loop of \_create\_prompt (lines 37 to 39)\<close>

text \<open>\<open>for i, question in enumerate(questions)\<close>: one numbered line for each question.\<close>

fun questions_loop :: "nat \<Rightarrow> string list \<Rightarrow> string \<Rightarrow> string" where
  "questions_loop i [] questions_str = questions_str"
| "questions_loop i (question # rest) questions_str =
     questions_loop (i + 1) rest
       (questions_str @ wenti @ str_int (i + 1) @ '': '' @ question @ [CHR 0x0A])"

subsection \<open>\_create\_prompt (lines 24 to 53)\<close>

text \<open>
  \<open>build_prompt\<close> is inherited from \<open>Iternlm2Chat7BChatChain\<close> and \<open>CHIT_CHAT_SYSTEM_TEMPLATE\<close>
  is imported from \<open>prompt_template\<close>; neither is among the sources, so both are parameters.
  \<open>build_prompt\<close> takes the meta instruction, the paired history and the query, and returns
  the rendered text.
\<close>

definition priv_create_prompt ::
  "(string \<Rightarrow> (string \<times> string) list \<Rightarrow> string \<Rightarrow> string) \<Rightarrow> string
    \<Rightarrow> 'a request_scheme \<Rightarrow> error + prompt_bundle" where
  "priv_create_prompt build_prompt CHIT_CHAT_SYSTEM_TEMPLATE x =
    (case chat_history x of
       None \<Rightarrow> Inl KeyError
     | Some ch \<Rightarrow>
        if length ch mod 2 \<noteq> 0 then Inl AssertionError
        else
          (case pair_loop ch 0 [] [] of
             Inl e \<Rightarrow> Inl e
           | Inr (history, questions) \<Rightarrow>
              let questions_str = questions_loop 0 questions [];
                  query_input = Iternlm2_query_input;
                  rendered = build_prompt CHIT_CHAT_SYSTEM_TEMPLATE history query_input;
                  prompt_assist =
                    assist_opening @ str_int (length history) @ assist_turns @ '':'' @ [CHR 0x0A]
                    @ questions_str @ [CHR 0x0A] @ assist_closing @ '':'' @ [CHR 0x0A]
              in (case questions of
                    [] \<Rightarrow> Inl IndexError
                  | first_question # rest \<Rightarrow>
                      let prefix_text = wenti @ ''1: '' @ first_question @ [CHR 0x0A] @ zongjie @ '':''
                      in Inr \<lparr>pb_prompt = rendered @ prompt_assist @ prefix_text,
                              pb_prefix = prefix_text\<rparr>)))"

subsection \<open>create\_prompt (lines 20 to 22)\<close>

text \<open>The prompt the inherited chain sends to the model is the one stored in the request.\<close>

definition create_prompt :: "'a request_scheme \<Rightarrow> error + string" where
  "create_prompt x = (case prompt x of None \<Rightarrow> Inl KeyError | Some p \<Rightarrow> Inr p)"

subsection \<open>The two output formatters (lines 55 to 58 and line 72)\<close>

text \<open>
  Iterating over a Python string yields its characters one by one. With strings as UTF-8
  bytes, a character is a byte that is not a continuation byte (\<open>0x80\<close> to \<open>0xBF\<close>)
  together with the continuation bytes that follow it.
\<close>

definition continuation_byte :: "char \<Rightarrow> bool" where
  "continuation_byte c \<longleftrightarrow> 0x80 \<le> (of_char c :: nat) \<and> (of_char c :: nat) < 0xC0"

function iter_str :: "string \<Rightarrow> string list" where
  "iter_str [] = []"
| "iter_str (c # cs) =
     (c # takeWhile continuation_byte cs) # iter_str (dropWhile continuation_byte cs)"
  by pat_completeness auto
termination
  by (relation "measure length") (auto simp: length_dropWhile_le le_imp_less_Suc)

text \<open>
  \<open>stream_postprocess_fn\<close> is a generator: it yields \<open>x['prefix']\<close> and then everything
  \<open>x['llm_output']\<close> yields. The result is the sequence of chunks a consumer receives and the
  way the sequence ends.
\<close>

definition stream_postprocess_fn :: "'a request_scheme \<Rightarrow> string list \<times> error option" where
  "stream_postprocess_fn x =
    (case prefix x of
       None \<Rightarrow> ([], Some KeyError)
     | Some p \<Rightarrow>
        (case llm_output x of
           None \<Rightarrow> ([p], Some KeyError)
         | Some (Text s) \<Rightarrow> (p # iter_str s, None)
         | Some (Stream chunks ending) \<Rightarrow> (p # chunks, ending)))"

text \<open>
  The formatter of the other branch is \<open>lambda x: x['prefix'] + x['llm_output']\<close>; adding
  an iterator to a string raises \<open>TypeError\<close>.
\<close>

definition prefix_plus_llm_output :: "'a request_scheme \<Rightarrow> error + string" where
  "prefix_plus_llm_output x =
    (case prefix x of
       None \<Rightarrow> Inl KeyError
     | Some p \<Rightarrow>
        (case llm_output x of
           None \<Rightarrow> Inl KeyError
         | Some (Text s) \<Rightarrow> Inr (p @ s)
         | Some (Stream chunks ending) \<Rightarrow> Inl TypeError))"

subsection \<open>create\_chain of the InternLM2 family (lines 60 to 73)\<close>

text \<open>Values of generation parameters: \<open>2000\<close> is an integer, \<open>0.1\<close> and \<open>0.9\<close> are decimal literals.\<close>

datatype kwval = PyInt int | PyFloat rat

type_synonym model_kwargs = "string \<rightharpoonup> kwval"

text \<open>What a chain returns: one string, or the generator of \<open>stream_postprocess_fn\<close>.\<close>

datatype chain_output = Final string | Lazy "string list" "error option"

text \<open>
  The three \<open>RunnablePassthrough.assign\<close> steps. Each returns the request with one or two
  more keys, or propagates the exception of the function it calls.
\<close>

definition assign_prompt_dict ::
  "(string \<Rightarrow> (string \<times> string) list \<Rightarrow> string \<Rightarrow> string) \<Rightarrow> string
    \<Rightarrow> 'a request_scheme \<Rightarrow> error + 'a request_scheme" where
  "assign_prompt_dict build_prompt CHIT_CHAT_SYSTEM_TEMPLATE x =
    (case priv_create_prompt build_prompt CHIT_CHAT_SYSTEM_TEMPLATE x of
       Inl e \<Rightarrow> Inl e
     | Inr d \<Rightarrow> Inr (x\<lparr>prompt_dict := Some d\<rparr>))"

definition assign_prompt_prefix :: "'a request_scheme \<Rightarrow> error + 'a request_scheme" where
  "assign_prompt_prefix x =
    (case prompt_dict x of
       None \<Rightarrow> Inl KeyError
     | Some d \<Rightarrow> Inr (x\<lparr>prompt := Some (pb_prompt d), prefix := Some (pb_prefix d)\<rparr>))"

definition assign_llm_output ::
  "('a request_scheme \<Rightarrow> error + llm_result) \<Rightarrow> 'a request_scheme \<Rightarrow> error + 'a request_scheme" where
  "assign_llm_output llm_chain x =
    (case llm_chain x of
       Inl e \<Rightarrow> Inl e
     | Inr out \<Rightarrow> Inr (x\<lparr>llm_output := Some out\<rparr>))"

text \<open>
  \<open>super().create_chain\<close> is the chain of \<open>Iternlm2Chat7BChatChain\<close>, which is not among the
  sources: it is the parameter \<open>super_create_chain\<close>, given the generation parameters and
  the \<open>stream\<close> flag. The chain is applied to a request \<open>x\<close>; \<open>calls\<close> counts the
  invocations of the model chain, and the result carries the count after the run.
\<close>

definition Iternlm2_create_chain ::
  "(model_kwargs \<Rightarrow> bool \<Rightarrow> 'a request_scheme \<Rightarrow> error + llm_result)
    \<Rightarrow> (string \<Rightarrow> (string \<times> string) list \<Rightarrow> string \<Rightarrow> string) \<Rightarrow> string
    \<Rightarrow> model_kwargs option \<Rightarrow> bool \<Rightarrow> 'a request_scheme \<Rightarrow> nat
    \<Rightarrow> (error + chain_output) \<times> nat" where
  "Iternlm2_create_chain super_create_chain build_prompt CHIT_CHAT_SYSTEM_TEMPLATE
      model_kwargs stream x calls =
    (let kwargs = (case model_kwargs of None \<Rightarrow> Map.empty | Some k \<Rightarrow> k);
         llm_chain = super_create_chain kwargs stream
     in case assign_prompt_dict build_prompt CHIT_CHAT_SYSTEM_TEMPLATE x of
          Inl e \<Rightarrow> (Inl e, calls)
        | Inr x1 \<Rightarrow>
           (case assign_prompt_prefix x1 of
              Inl e \<Rightarrow> (Inl e, calls)
            | Inr x2 \<Rightarrow>
               (case assign_llm_output llm_chain x2 of
                  Inl e \<Rightarrow> (Inl e, calls + 1)
                | Inr x3 \<Rightarrow>
                   if stream then
                     (case stream_postprocess_fn x3 of
                        (chunks, ending) \<Rightarrow> (Inr (Lazy chunks ending), calls + 1))
                   else
                     (case prefix_plus_llm_output x3 of
                        Inl e \<Rightarrow> (Inl e, calls + 1)
                      | Inr s \<Rightarrow> (Inr (Final s), calls + 1)))))"

subsection \<open>The Claude family (lines 79 to 100)\<close>

text \<open>
  \<open>query_input\<close> of the Claude family (line 92): "please summarise the conversation above
  briefly, one summary for each conversation, starting with '- '. Each summary first states
  the question", with its final newline.
\<close>

definition Claude2_query_input :: string where
  "Claude2_query_input =
    [CHR 0xE8, CHR 0xAF, CHR 0xB7, CHR 0xE7, CHR 0xAE, CHR 0x80, CHR 0xE8, CHR 0xA6, CHR 0x81,
     CHR 0xE6, CHR 0x80, CHR 0xBB, CHR 0xE7, CHR 0xBB, CHR 0x93, CHR 0xE4, CHR 0xB8, CHR 0x8A,
     CHR 0xE8, CHR 0xBF, CHR 0xB0, CHR 0xE5, CHR 0xAF, CHR 0xB9, CHR 0xE8, CHR 0xAF, CHR 0x9D,
     CHR 0xE4, CHR 0xB8, CHR 0xAD, CHR 0xE7, CHR 0x9A, CHR 0x84, CHR 0xE5, CHR 0x86, CHR 0x85,
     CHR 0xE5, CHR 0xAE, CHR 0xB9, CHR 0x2C, CHR 0xE6, CHR 0xAF, CHR 0x8F, CHR 0xE4, CHR 0xB8,
     CHR 0x80, CHR 0xE4, CHR 0xB8, CHR 0xAA, CHR 0xE5, CHR 0xAF, CHR 0xB9, CHR 0xE8, CHR 0xAF,
     CHR 0x9D, CHR 0xE5, CHR 0x8D, CHR 0x95, CHR 0xE7, CHR 0x8B, CHR 0xAC, CHR 0xE4, CHR 0xB8,
     CHR 0x80, CHR 0xE4, CHR 0xB8, CHR 0xAA, CHR 0xE6, CHR 0x80, CHR 0xBB, CHR 0xE7, CHR 0xBB,
     CHR 0x93, CHR 0xEF, CHR 0xBC, CHR 0x8C, CHR 0xE5, CHR 0xB9, CHR 0xB6, CHR 0xE7, CHR 0x94,
     CHR 0xA8, CHR 0x20]
    @ [CHR 0x27, CHR 0x2D, CHR 0x20, CHR 0x27]
    @ [CHR 0xE5, CHR 0xBC, CHR 0x80, CHR 0xE5, CHR 0xA4, CHR 0xB4, CHR 0xE3, CHR 0x80, CHR 0x82,
       CHR 0x20, CHR 0xE6, CHR 0xAF, CHR 0x8F, CHR 0xE4, CHR 0xB8, CHR 0x80, CHR 0xE4, CHR 0xB8,
       CHR 0xAA, CHR 0xE6, CHR 0x80, CHR 0xBB, CHR 0xE7, CHR 0xBB, CHR 0x93, CHR 0xE8, CHR 0xA6,
       CHR 0x81, CHR 0xE5, CHR 0x85, CHR 0x88, CHR 0xE8, CHR 0xAF, CHR 0xB4, CHR 0xE6, CHR 0x98,
       CHR 0x8E, CHR 0xE9, CHR 0x97, CHR 0xAE, CHR 0xE9, CHR 0xA2, CHR 0x98, CHR 0xE3, CHR 0x80,
       CHR 0x82, CHR 0x0A]"

text \<open>
  A class is the record of its attributes. \<open>MKT_CONVERSATION_SUMMARY_TYPE\<close> is imported
  from \<open>constant\<close> and is a parameter. A subclass that sets only \<open>model_id\<close> is the
  parent's record with that field replaced.
\<close>

record chain_class =
  model_id :: string
  intent_type :: string
  default_model_kwargs :: model_kwargs

definition Claude2MKTConversationSummaryChain :: "string \<Rightarrow> chain_class" where
  "Claude2MKTConversationSummaryChain MKT_CONVERSATION_SUMMARY_TYPE =
    \<lparr>model_id = ''anthropic.claude-v2'',
     intent_type = MKT_CONVERSATION_SUMMARY_TYPE,
     default_model_kwargs =
       [''max_tokens_to_sample'' \<mapsto> PyInt 2000,
        ''temperature'' \<mapsto> PyFloat (1 / 10),
        ''top_p'' \<mapsto> PyFloat (9 / 10)]\<rparr>"

definition Claude21MKTConversationSummaryChain :: "string \<Rightarrow> chain_class" where
  "Claude21MKTConversationSummaryChain MKT_CONVERSATION_SUMMARY_TYPE =
    (Claude2MKTConversationSummaryChain MKT_CONVERSATION_SUMMARY_TYPE)
      \<lparr>model_id := ''anthropic.claude-v2:1''\<rparr>"

definition ClaudeInstanceMKTConversationSummaryChain :: "string \<Rightarrow> chain_class" where
  "ClaudeInstanceMKTConversationSummaryChain MKT_CONVERSATION_SUMMARY_TYPE =
    (Claude2MKTConversationSummaryChain MKT_CONVERSATION_SUMMARY_TYPE)
      \<lparr>model_id := ''anthropic.claude-instant-v1''\<rparr>"

text \<open>
  \<open>create_chain\<close> of the Claude family: the inherited chain, run on the request with
  \<open>query\<close> assigned. \<open>super().create_chain\<close> belongs to \<open>Claude2ChatChain\<close>, which is not
  among the sources, and is the parameter \<open>super_create_chain\<close>; as a class method it
  receives the class \<open>cls\<close> it was called on.
\<close>

definition Claude2_create_chain ::
  "(chain_class \<Rightarrow> model_kwargs option \<Rightarrow> bool \<Rightarrow> 'a request_scheme \<Rightarrow> 'r)
    \<Rightarrow> chain_class \<Rightarrow> model_kwargs option \<Rightarrow> bool \<Rightarrow> 'a request_scheme \<Rightarrow> 'r" where
  "Claude2_create_chain super_create_chain cls model_kwargs stream x =
    (let query_input = Claude2_query_input;
         chain = super_create_chain cls model_kwargs stream
     in chain (x\<lparr>query := Some query_input\<rparr>))"

text \<open>
  Modelled from the spec: \<open>Claude2ChatChain.create_chain\<close>, the chain the Claude family
  inherits, is in the module \<open>chat_chain\<close>, which is not among the sources. By the spec the
  assembly takes generation-parameter overrides and a streaming flag, and the model is
  invoked with the variant's generation parameters: the family defaults, each replaced by
  an explicit override when there is one. The model-invocation collaborator \<open>model\<close>, with
  the history formatting it is given, is opaque.
\<close>

definition Claude2ChatChain_create_chain ::
  "(string \<Rightarrow> model_kwargs \<Rightarrow> bool \<Rightarrow> 'a request_scheme \<Rightarrow> 'r)
    \<Rightarrow> chain_class \<Rightarrow> model_kwargs option \<Rightarrow> bool \<Rightarrow> 'a request_scheme \<Rightarrow> 'r" where
  "Claude2ChatChain_create_chain model cls model_kwargs stream x =
    model (model_id cls)
      (default_model_kwargs cls ++ (case model_kwargs of None \<Rightarrow> Map.empty | Some k \<Rightarrow> k))
      stream x"

section \<open>The same code over a store of objects\<close>

text \<open>
  The definitions above compute with values, so they cannot say whether the code changes an
  object the caller still holds. This section follows the same lines of the source over a
  store, in which the request dictionary, the list \<open>chat_history\<close>, its messages, the two
  lists the loop appends to and the returned dictionary are objects with addresses. The
  store keeps one table for each kind of object; an address is an index into its table and a
  new object takes the next free index. Strings and tuples of strings are immutable and
  stay values. A reference held by an object is read with \<open>!\<close>: a Python reference
  always points to an object, so the index is in range in every store that arises.
\<close>

subsection \<open>Objects\<close>

text \<open>
  The request dictionary as an object: its \<open>chat_history\<close> entry holds the address of a
  list object, not the list.
\<close>

record request_object =
  chat_history_ref :: "nat option"
  query_entry :: "string option"

record heap =
  messages :: "message list"
  message_lists :: "nat list list"
  pair_lists :: "(string \<times> string) list list"
  string_lists :: "string list list"
  prompt_dicts :: "prompt_bundle list"
  request_dicts :: "request_object list"

subsection \<open>\_create\_prompt over the store\<close>

text \<open>
  The pairing loop: \<open>la\<close> is the address of \<open>chat_history\<close>, \<open>ha\<close> the address of
  \<open>history\<close> and \<open>qa\<close> the address of \<open>questions\<close>. \<open>questions.append\<close> and
  \<open>history.append\<close> replace the list at the address by the list with one more item.
\<close>

function store_pair_loop ::
  "heap \<Rightarrow> nat \<Rightarrow> nat \<Rightarrow> nat \<Rightarrow> nat \<Rightarrow> (error + unit) \<times> heap" where
  "store_pair_loop h la ha qa i =
     (if i < length (message_lists h ! la) then
        if type (messages h ! (message_lists h ! la ! i)) \<noteq> HUMAN_MESSAGE_TYPE
        then (Inl AssertionError, h)
        else if \<not> i + 1 < length (message_lists h ! la) then (Inl IndexError, h)
        else if type (messages h ! (message_lists h ! la ! (i + 1))) \<noteq> AI_MESSAGE_TYPE
        then (Inl AssertionError, h)
        else
          let h1 = h\<lparr>string_lists := (string_lists h)
                     [qa := string_lists h ! qa
                        @ [content (messages h ! (message_lists h ! la ! i))]]\<rparr>;
              h2 = h1\<lparr>pair_lists := (pair_lists h1)
                     [ha := pair_lists h1 ! ha
                        @ [(content (messages h1 ! (message_lists h1 ! la ! i)),
                            content (messages h1 ! (message_lists h1 ! la ! (i + 1))))]]\<rparr>
          in store_pair_loop h2 la ha qa (i + 2)
      else (Inr (), h))"
  by pat_completeness auto
termination
  by (relation "measure (\<lambda>(h, la, ha, qa, i). length (message_lists h ! la) - i)") auto

declare store_pair_loop.simps [simp del]

text \<open>
  \<open>history = []\<close> and \<open>questions = []\<close> allocate two lists and the \<open>return\<close> allocates the
  dictionary; the result is the address of that dictionary and the store after the call.
\<close>

definition store_create_prompt ::
  "(string \<Rightarrow> (string \<times> string) list \<Rightarrow> string \<Rightarrow> string) \<Rightarrow> string
    \<Rightarrow> heap \<Rightarrow> nat \<Rightarrow> (error + nat) \<times> heap" where
  "store_create_prompt build_prompt CHIT_CHAT_SYSTEM_TEMPLATE h xa =
    (case chat_history_ref (request_dicts h ! xa) of
       None \<Rightarrow> (Inl KeyError, h)
     | Some la \<Rightarrow>
        if length (message_lists h ! la) mod 2 \<noteq> 0 then (Inl AssertionError, h)
        else
          let ha = length (pair_lists h);
              h1 = h\<lparr>pair_lists := pair_lists h @ [[]]\<rparr>;
              qa = length (string_lists h1);
              h2 = h1\<lparr>string_lists := string_lists h1 @ [[]]\<rparr>
          in (case store_pair_loop h2 la ha qa 0 of
                (Inl e, h3) \<Rightarrow> (Inl e, h3)
              | (Inr u, h3) \<Rightarrow>
                 let questions_str = questions_loop 0 (string_lists h3 ! qa) [];
                     query_input = Iternlm2_query_input;
                     rendered =
                       build_prompt CHIT_CHAT_SYSTEM_TEMPLATE (pair_lists h3 ! ha) query_input;
                     prompt_assist =
                       assist_opening @ str_int (length (pair_lists h3 ! ha)) @ assist_turns
                       @ '':'' @ [CHR 0x0A] @ questions_str @ [CHR 0x0A] @ assist_closing
                       @ '':'' @ [CHR 0x0A]
                 in (case string_lists h3 ! qa of
                       [] \<Rightarrow> (Inl IndexError, h3)
                     | first_question # rest \<Rightarrow>
                         let prefix_text =
                               wenti @ ''1: '' @ first_question @ [CHR 0x0A] @ zongjie @ '':''
                         in (Inr (length (prompt_dicts h3)),
                             h3\<lparr>prompt_dicts := prompt_dicts h3
                                  @ [\<lparr>pb_prompt = rendered @ prompt_assist @ prefix_text,
                                      pb_prefix = prefix_text\<rparr>]\<rparr>))))"

subsection \<open>create\_chain of the Claude family over the store\<close>

text \<open>
  \<open>RunnablePassthrough.assign\<close> builds a new dictionary from the entries of \<open>x\<close> and the
  assigned \<open>query\<close>, and the inherited chain runs on the new dictionary.
\<close>

definition store_Claude2_create_chain ::
  "(chain_class \<Rightarrow> model_kwargs option \<Rightarrow> bool \<Rightarrow> heap \<Rightarrow> nat \<Rightarrow> 'r)
    \<Rightarrow> chain_class \<Rightarrow> model_kwargs option \<Rightarrow> bool \<Rightarrow> heap \<Rightarrow> nat \<Rightarrow> 'r" where
  "store_Claude2_create_chain super_create_chain cls model_kwargs stream h xa =
    (let query_input = Claude2_query_input;
         chain = super_create_chain cls model_kwargs stream;
         x = request_dicts h ! xa;
         h1 = h\<lparr>request_dicts := request_dicts h @ [x\<lparr>query_entry := Some query_input\<rparr>]\<rparr>
     in chain h1 (length (request_dicts h)))"

section \<open>Vocabulary of the properties\<close>

subsection \<open>Histories the validator accepts\<close>

text \<open>
  A history is accepted when its length is even, every message at an even index is a human
  message and every message at an odd index is an assistant message.
\<close>

definition alternating :: "message list \<Rightarrow> bool" where
  "alternating ch \<longleftrightarrow>
     even (length ch) \<and>
     (\<forall>i<length ch. type (ch ! i) = (if even i then HUMAN_MESSAGE_TYPE else AI_MESSAGE_TYPE))"

definition paired :: "message list \<Rightarrow> (string \<times> string) list" where
  "paired ch = map (\<lambda>k. (content (ch ! (2 * k)), content (ch ! (2 * k + 1)))) [0..<length ch div 2]"

definition asked :: "message list \<Rightarrow> string list" where
  "asked ch = map (\<lambda>k. content (ch ! (2 * k))) [0..<length ch div 2]"

subsection \<open>What prompt construction is expected to return\<close>

text \<open>
  The prefix: the word for "question", \<open>1: \<close>, the first question, a newline, the word
  for "summary" and a colon.
\<close>

definition expected_prefix :: "message list \<Rightarrow> string" where
  "expected_prefix ch = wenti @ ''1: '' @ content (ch ! 0) @ [CHR 0x0A] @ zongjie @ '':''"

text \<open>The numbered list: question \<open>k\<close> (counting from 0) on a line of its own, numbered \<open>k + 1\<close>.\<close>

definition numbered_list :: "string list \<Rightarrow> string" where
  "numbered_list qs =
     concat (map (\<lambda>(k, q). wenti @ str_int (k + 1) @ '': '' @ q @ [CHR 0x0A]) (enumerate 0 qs))"

text \<open>
  The preamble in the assistant's voice: the number of turns, which is half the length of
  the history, then the numbered list of the questions.
\<close>

definition preamble :: "message list \<Rightarrow> string" where
  "preamble ch =
     assist_opening @ str_int (length ch div 2) @ assist_turns @ '':'' @ [CHR 0x0A]
     @ numbered_list (asked ch) @ [CHR 0x0A] @ assist_closing @ '':'' @ [CHR 0x0A]"

definition expected_bundle ::
  "(string \<Rightarrow> (string \<times> string) list \<Rightarrow> string \<Rightarrow> string) \<Rightarrow> string
    \<Rightarrow> message list \<Rightarrow> prompt_bundle" where
  "expected_bundle build_prompt CHIT_CHAT_SYSTEM_TEMPLATE ch =
     \<lparr>pb_prompt =
        build_prompt CHIT_CHAT_SYSTEM_TEMPLATE (paired ch) Iternlm2_query_input
        @ preamble ch @ expected_prefix ch,
      pb_prefix = expected_prefix ch\<rparr>"

text \<open>The request the model chain receives once the prompt dictionary \<open>d\<close> is built.\<close>

definition model_request :: "'a request_scheme \<Rightarrow> prompt_bundle \<Rightarrow> 'a request_scheme" where
  "model_request x d =
     x\<lparr>prompt_dict := Some d, prompt := Some (pb_prompt d), prefix := Some (pb_prefix d)\<rparr>"

text \<open>The three classes of the Claude family.\<close>

definition Claude_variants :: "string \<Rightarrow> chain_class list" where
  "Claude_variants MKT_CONVERSATION_SUMMARY_TYPE =
     [Claude2MKTConversationSummaryChain MKT_CONVERSATION_SUMMARY_TYPE,
      Claude21MKTConversationSummaryChain MKT_CONVERSATION_SUMMARY_TYPE,
      ClaudeInstanceMKTConversationSummaryChain MKT_CONVERSATION_SUMMARY_TYPE]"

subsection \<open>Stores\<close>

text \<open>The history a list object holds: the messages its items point to.\<close>

definition history_at :: "heap \<Rightarrow> nat \<Rightarrow> message list" where
  "history_at h la = map (\<lambda>m. messages h ! m) (message_lists h ! la)"

text \<open>
  \<open>extends h h'\<close>: every message and every list of messages is in \<open>h'\<close> as it is in \<open>h\<close>,
  and every other object of \<open>h\<close> is in \<open>h'\<close> at the same address with the same value;
  \<open>h'\<close> may hold new objects at new addresses.
\<close>

definition extends :: "heap \<Rightarrow> heap \<Rightarrow> bool" where
  "extends h h' \<longleftrightarrow>
     messages h' = messages h
     \<and> message_lists h' = message_lists h
     \<and> take (length (request_dicts h)) (request_dicts h') = request_dicts h
     \<and> take (length (pair_lists h)) (pair_lists h') = pair_lists h
     \<and> take (length (string_lists h)) (string_lists h') = string_lists h
     \<and> take (length (prompt_dicts h)) (prompt_dicts h') = prompt_dicts h"

section \<open>Properties\<close>

subsection \<open>The pairing loop\<close>

lemma pair_loop_from:
  assumes "alternating ch"
  shows "2 * k \<le> length ch \<Longrightarrow>
    pair_loop ch (2 * k) history questions =
      Inr (history @ map (\<lambda>k. (content (ch ! (2 * k)), content (ch ! (2 * k + 1)))) [k..<length ch div 2],
           questions @ map (\<lambda>k. content (ch ! (2 * k))) [k..<length ch div 2])"
proof (induction "length ch div 2 - k" arbitrary: k history questions)
  case 0
  from assms have "even (length ch)"
    by (simp add: alternating_def)
  with 0 have "\<not> 2 * k < length ch" and "\<not> k < length ch div 2"
    by (auto elim!: evenE)
  then show ?case
    by (simp add: pair_loop.simps)
next
  case (Suc d)
  from Suc.hyps(2) have k: "k < length ch div 2"
    by linarith
  from assms have ev: "even (length ch)"
    by (simp add: alternating_def)
  from k ev have lt: "2 * k + 1 < length ch"
    by (auto elim!: evenE)
  then have lt0: "2 * k < length ch"
    by simp
  from assms lt0 have human: "type (ch ! (2 * k)) = HUMAN_MESSAGE_TYPE"
    by (simp add: alternating_def)
  from assms lt have ai: "type (ch ! (2 * k + 1)) = AI_MESSAGE_TYPE"
    unfolding alternating_def by (metis even_plus_one_iff dvd_triv_left)
  have d: "d = length ch div 2 - Suc k"
    using Suc.hyps(2) by linarith
  have le: "2 * Suc k \<le> length ch"
    using lt by simp
  have step: "pair_loop ch (2 * k) history questions =
      pair_loop ch (2 * Suc k)
        (history @ [(content (ch ! (2 * k)), content (ch ! (2 * k + 1)))])
        (questions @ [content (ch ! (2 * k))])"
    using lt lt0 human ai by (subst pair_loop.simps) simp
  show ?case
    unfolding step Suc.hyps(1) [OF d le]
    using k by (simp add: upt_conv_Cons)
qed

lemma pair_loop_rejects:
  assumes ev: "even (length ch)"
  shows "2 * k \<le> length ch \<Longrightarrow>
    \<exists>i. 2 * k \<le> i \<and> i < length ch
       \<and> type (ch ! i) \<noteq> (if even i then HUMAN_MESSAGE_TYPE else AI_MESSAGE_TYPE) \<Longrightarrow>
    pair_loop ch (2 * k) history questions = Inl AssertionError"
proof (induction "length ch div 2 - k" arbitrary: k history questions)
  case 0
  with ev have "\<not> 2 * k < length ch"
    by (auto elim!: evenE)
  with 0 show ?case by auto
next
  case (Suc d)
  from Suc.hyps(2) have k: "k < length ch div 2"
    by linarith
  from k ev have lt: "2 * k + 1 < length ch"
    by (auto elim!: evenE)
  then have lt0: "2 * k < length ch"
    by simp
  have d: "d = length ch div 2 - Suc k"
    using Suc.hyps(2) by linarith
  have le: "2 * Suc k \<le> length ch"
    using lt by simp
  show ?case
  proof (cases "type (ch ! (2 * k)) = HUMAN_MESSAGE_TYPE \<and> type (ch ! (2 * k + 1)) = AI_MESSAGE_TYPE")
    case False
    then show ?thesis
      using lt lt0 by (subst pair_loop.simps) auto
  next
    case True
    from Suc.prems(2) obtain i where i: "2 * k \<le> i" "i < length ch"
      "type (ch ! i) \<noteq> (if even i then HUMAN_MESSAGE_TYPE else AI_MESSAGE_TYPE)"
      by blast
    have "i \<noteq> 2 * k" using i(3) True by auto
    moreover have "i \<noteq> 2 * k + 1" using i(3) True by auto
    ultimately have "2 * Suc k \<le> i" using i(1) by simp
    with i have ex: "\<exists>i. 2 * Suc k \<le> i \<and> i < length ch
       \<and> type (ch ! i) \<noteq> (if even i then HUMAN_MESSAGE_TYPE else AI_MESSAGE_TYPE)"
      by blast
    have step: "pair_loop ch (2 * k) history questions =
      pair_loop ch (2 * Suc k)
        (history @ [(content (ch ! (2 * k)), content (ch ! (2 * k + 1)))])
        (questions @ [content (ch ! (2 * k))])"
      using lt lt0 True by (subst pair_loop.simps) simp
    show ?thesis
      unfolding step by (rule Suc.hyps(1) [OF d le ex])
  qed
qed

lemma questions_loop_enumerate:
  "questions_loop i qs acc =
     acc @ concat (map (\<lambda>(k, q). wenti @ str_int (k + 1) @ '': '' @ q @ [CHR 0x0A]) (enumerate i qs))"
  by (induction qs arbitrary: i acc) simp_all

lemma asked_nonempty:
  assumes "alternating ch" "ch \<noteq> []"
  shows "asked ch = content (ch ! 0) # map (\<lambda>k. content (ch ! (2 * k))) [1..<length ch div 2]"
proof -
  from assms have "0 < length ch div 2"
    by (cases ch) (auto simp: alternating_def elim!: evenE)
  then show ?thesis
    by (simp add: asked_def upt_conv_Cons)
qed

lemma priv_create_prompt_accepts:
  assumes "chat_history x = Some ch" "alternating ch" "ch \<noteq> []"
  shows "priv_create_prompt build_prompt T x = Inr (expected_bundle build_prompt T ch)"
proof -
  have ev: "length ch mod 2 = 0"
    using assms(2) by (simp add: alternating_def even_iff_mod_2_eq_zero)
  have loop: "pair_loop ch 0 [] [] = Inr (paired ch, asked ch)"
    using pair_loop_from [OF assms(2), of 0 "[]" "[]"] by (simp add: paired_def asked_def)
  have len: "length (paired ch) = length ch div 2"
    by (simp add: paired_def)
  show ?thesis
    unfolding priv_create_prompt_def
    by (simp add: assms(1) ev loop len Let_def asked_nonempty [OF assms(2,3)]
        questions_loop_enumerate expected_bundle_def preamble_def numbered_list_def
        expected_prefix_def)
qed

lemma priv_create_prompt_rejects:
  assumes "chat_history x = Some ch"
    and "odd (length ch)
       \<or> (\<exists>i<length ch. even i \<and> type (ch ! i) \<noteq> HUMAN_MESSAGE_TYPE)
       \<or> (\<exists>i<length ch. odd i \<and> type (ch ! i) \<noteq> AI_MESSAGE_TYPE)"
  shows "priv_create_prompt build_prompt T x = Inl AssertionError"
proof (cases "even (length ch)")
  case False
  then have "length ch mod 2 \<noteq> 0"
    by (simp add: even_iff_mod_2_eq_zero)
  then show ?thesis
    by (simp add: priv_create_prompt_def assms(1))
next
  case True
  with assms(2) have "\<exists>i. 2 * 0 \<le> i \<and> i < length ch
       \<and> type (ch ! i) \<noteq> (if even i then HUMAN_MESSAGE_TYPE else AI_MESSAGE_TYPE)"
    by auto
  from pair_loop_rejects [OF True _ this, of "[]" "[]"]
  have "pair_loop ch 0 [] [] = Inl AssertionError"
    by simp
  then show ?thesis
    by (simp add: priv_create_prompt_def assms(1))
qed

lemma priv_create_prompt_empty:
  "chat_history x = Some [] \<Longrightarrow> priv_create_prompt build_prompt T x = Inl IndexError"
  by (simp add: priv_create_prompt_def pair_loop.simps)

subsection \<open>The chain of the InternLM2 family, stage by stage\<close>

lemma chain_rejects:
  assumes "priv_create_prompt build_prompt T x = Inl e"
  shows "Iternlm2_create_chain sc build_prompt T mk stream x calls = (Inl e, calls)"
  using assms by (simp add: Iternlm2_create_chain_def assign_prompt_dict_def)

lemma chain_text:
  assumes "priv_create_prompt build_prompt T x = Inr d"
    and "sc (case mk of None \<Rightarrow> Map.empty | Some k \<Rightarrow> k) False (model_request x d) = Inr (Text out)"
  shows "Iternlm2_create_chain sc build_prompt T mk False x calls
           = (Inr (Final (pb_prefix d @ out)), calls + 1)"
  using assms
  by (simp add: Iternlm2_create_chain_def assign_prompt_dict_def assign_prompt_prefix_def
      assign_llm_output_def prefix_plus_llm_output_def model_request_def)

lemma chain_stream:
  assumes "priv_create_prompt build_prompt T x = Inr d"
    and "sc (case mk of None \<Rightarrow> Map.empty | Some k \<Rightarrow> k) True (model_request x d)
           = Inr (Stream chunks ending)"
  shows "Iternlm2_create_chain sc build_prompt T mk True x calls
           = (Inr (Lazy (pb_prefix d # chunks) ending), calls + 1)"
  using assms
  by (simp add: Iternlm2_create_chain_def assign_prompt_dict_def assign_prompt_prefix_def
      assign_llm_output_def stream_postprocess_fn_def model_request_def)

subsection \<open>The store: what a call leaves as it was\<close>

lemma store_pair_loop_frame:
  "store_pair_loop h la ha qa i = (r, h') \<Longrightarrow>
     messages h' = messages h \<and> message_lists h' = message_lists h
     \<and> request_dicts h' = request_dicts h \<and> prompt_dicts h' = prompt_dicts h
     \<and> length (pair_lists h') = length (pair_lists h)
     \<and> length (string_lists h') = length (string_lists h)
     \<and> (\<forall>n\<le>ha. take n (pair_lists h') = take n (pair_lists h))
     \<and> (\<forall>n\<le>qa. take n (string_lists h') = take n (string_lists h))"
proof (induction h la ha qa i arbitrary: r h' rule: store_pair_loop.induct)
  case (1 h la ha qa i)
  show ?case
  proof (cases "i < length (message_lists h ! la)
      \<and> type (messages h ! (message_lists h ! la ! i)) = HUMAN_MESSAGE_TYPE
      \<and> i + 1 < length (message_lists h ! la)
      \<and> type (messages h ! (message_lists h ! la ! (i + 1))) = AI_MESSAGE_TYPE")
    case False
    with "1.prems" have "h' = h"
      by (subst (asm) store_pair_loop.simps) (auto split: if_splits)
    then show ?thesis by simp
  next
    case True
    define h1 where "h1 = h\<lparr>string_lists := (string_lists h)
                     [qa := string_lists h ! qa
                        @ [content (messages h ! (message_lists h ! la ! i))]]\<rparr>"
    define h2 where "h2 = h1\<lparr>pair_lists := (pair_lists h1)
                     [ha := pair_lists h1 ! ha
                        @ [(content (messages h1 ! (message_lists h1 ! la ! i)),
                            content (messages h1 ! (message_lists h1 ! la ! (i + 1))))]]\<rparr>"
    from True "1.prems" have rec: "store_pair_loop h2 la ha qa (i + 2) = (r, h')"
      by (subst (asm) store_pair_loop.simps) (simp add: h1_def h2_def Let_def)
    have "messages h' = messages h2 \<and> message_lists h' = message_lists h2
     \<and> request_dicts h' = request_dicts h2 \<and> prompt_dicts h' = prompt_dicts h2
     \<and> length (pair_lists h') = length (pair_lists h2)
     \<and> length (string_lists h') = length (string_lists h2)
     \<and> (\<forall>n\<le>ha. take n (pair_lists h') = take n (pair_lists h2))
     \<and> (\<forall>n\<le>qa. take n (string_lists h') = take n (string_lists h2))"
      using True by (intro "1.IH" [OF _ _ _ _ h1_def h2_def rec]) auto
    then show ?thesis
      by (simp add: h1_def h2_def)
  qed
qed

lemma store_pair_loop_refines:
  "store_pair_loop h la ha qa i = (r, h') \<Longrightarrow>
   ha < length (pair_lists h) \<Longrightarrow> qa < length (string_lists h) \<Longrightarrow>
   pair_loop (history_at h la) i (pair_lists h ! ha) (string_lists h ! qa)
     = map_sum id (\<lambda>u. (pair_lists h' ! ha, string_lists h' ! qa)) r"
proof (induction h la ha qa i arbitrary: r h' rule: store_pair_loop.induct)
  case (1 h la ha qa i)
  show ?case
  proof (cases "i < length (message_lists h ! la)
      \<and> type (messages h ! (message_lists h ! la ! i)) = HUMAN_MESSAGE_TYPE
      \<and> i + 1 < length (message_lists h ! la)
      \<and> type (messages h ! (message_lists h ! la ! (i + 1))) = AI_MESSAGE_TYPE")
    case False
    with "1.prems"(1) show ?thesis
      by (subst (asm) store_pair_loop.simps, subst pair_loop.simps)
        (auto simp: history_at_def split: if_splits)
  next
    case True
    define h1 where "h1 = h\<lparr>string_lists := (string_lists h)
                     [qa := string_lists h ! qa
                        @ [content (messages h ! (message_lists h ! la ! i))]]\<rparr>"
    define h2 where "h2 = h1\<lparr>pair_lists := (pair_lists h1)
                     [ha := pair_lists h1 ! ha
                        @ [(content (messages h1 ! (message_lists h1 ! la ! i)),
                            content (messages h1 ! (message_lists h1 ! la ! (i + 1))))]]\<rparr>"
    from True "1.prems"(1) have rec: "store_pair_loop h2 la ha qa (i + 2) = (r, h')"
      by (subst (asm) store_pair_loop.simps) (simp add: h1_def h2_def Let_def)
    have ha: "ha < length (pair_lists h2)" and qa: "qa < length (string_lists h2)"
      using "1.prems"(2,3) by (simp_all add: h1_def h2_def)
    have "pair_loop (history_at h2 la) (i + 2) (pair_lists h2 ! ha) (string_lists h2 ! qa)
        = map_sum id (\<lambda>u. (pair_lists h' ! ha, string_lists h' ! qa)) r"
      using True by (intro "1.IH" [OF _ _ _ _ h1_def h2_def rec ha qa]) auto
    moreover have "history_at h2 la = history_at h la"
      by (simp add: history_at_def h1_def h2_def)
    moreover have "pair_lists h2 ! ha = pair_lists h ! ha
        @ [(content (history_at h la ! i), content (history_at h la ! (i + 1)))]"
      using True "1.prems"(2) by (simp add: history_at_def h1_def h2_def)
    moreover have "string_lists h2 ! qa = string_lists h ! qa @ [content (history_at h la ! i)]"
      using True "1.prems"(3) by (simp add: history_at_def h1_def h2_def)
    ultimately show ?thesis
      using True by (subst pair_loop.simps) (simp add: history_at_def)
  qed
qed

lemma store_create_prompt_refines:
  assumes "store_create_prompt build_prompt T h xa = (r, h')"
    and "chat_history x = map_option (history_at h) (chat_history_ref (request_dicts h ! xa))"
  shows "priv_create_prompt build_prompt T x = map_sum id (\<lambda>a. prompt_dicts h' ! a) r"
proof (cases "chat_history_ref (request_dicts h ! xa)")
  case None
  with assms show ?thesis
    by (auto simp: store_create_prompt_def priv_create_prompt_def)
next
  case (Some la)
  show ?thesis
  proof (cases "length (message_lists h ! la) mod 2 = 0")
    case False
    with Some assms show ?thesis
      by (auto simp: store_create_prompt_def priv_create_prompt_def history_at_def)
  next
    case True
    define h2 where "h2 = h\<lparr>pair_lists := pair_lists h @ [[]],
                          string_lists := string_lists h @ [[]]\<rparr>"
    obtain r3 h3 where loop:
      "store_pair_loop h2 la (length (pair_lists h)) (length (string_lists h)) 0 = (r3, h3)"
      by (cases "store_pair_loop h2 la (length (pair_lists h)) (length (string_lists h)) 0")
    have same: "history_at h2 la = history_at h la"
      by (simp add: history_at_def h2_def)
    from store_pair_loop_refines [OF loop]
    have pure: "pair_loop (history_at h la) 0 [] []
        = map_sum id (\<lambda>u. (pair_lists h3 ! length (pair_lists h),
                             string_lists h3 ! length (string_lists h))) r3"
      by (simp add: same) (simp add: h2_def)
    have hist: "chat_history x = Some (history_at h la)"
      using assms(2) Some by simp
    have len: "length (history_at h la) mod 2 = 0"
      using True by (simp add: history_at_def)
    show ?thesis
    proof (cases r3)
      case (Inl e)
      with loop have "store_pair_loop h2 la (length (pair_lists h)) (length (string_lists h)) 0
          = (Inl e, h3)"
        by simp
      with assms(1) Some True have "r = Inl e"
        by (auto simp: store_create_prompt_def Let_def h2_def)
      with Inl pure hist len show ?thesis
        by (simp add: priv_create_prompt_def)
    next
      case (Inr u)
      with loop have "store_pair_loop h2 la (length (pair_lists h)) (length (string_lists h)) 0
          = (Inr u, h3)"
        by simp
      with assms(1) Some True show ?thesis
        using Inr pure hist len
        by (auto simp: store_create_prompt_def priv_create_prompt_def Let_def h2_def
            split: list.splits)
    qed
  qed
qed

lemma store_create_prompt_frame:
  assumes "store_create_prompt build_prompt T h xa = (r, h')"
  shows "extends h h'
    \<and> (\<forall>a. r = Inr a \<longrightarrow> length (prompt_dicts h) \<le> a \<and> a < length (prompt_dicts h'))"
proof (cases "chat_history_ref (request_dicts h ! xa)")
  case None
  with assms show ?thesis
    by (auto simp: store_create_prompt_def extends_def)
next
  case (Some la)
  show ?thesis
  proof (cases "length (message_lists h ! la) mod 2 = 0")
    case False
    with Some assms show ?thesis
      by (auto simp: store_create_prompt_def extends_def)
  next
    case True
    define h2 where "h2 = h\<lparr>pair_lists := pair_lists h @ [[]],
                          string_lists := string_lists h @ [[]]\<rparr>"
    obtain r3 h3 where loop:
      "store_pair_loop h2 la (length (pair_lists h)) (length (string_lists h)) 0 = (r3, h3)"
      by (cases "store_pair_loop h2 la (length (pair_lists h)) (length (string_lists h)) 0")
    from store_pair_loop_frame [OF loop]
    have kept: "extends h h3" and dicts: "prompt_dicts h3 = prompt_dicts h"
      by (simp_all add: extends_def h2_def)
    have cases: "h' = h3 \<and> (\<forall>a. r \<noteq> Inr a)
       \<or> (\<exists>d. r = Inr (length (prompt_dicts h3))
               \<and> h' = h3\<lparr>prompt_dicts := prompt_dicts h3 @ [d]\<rparr>)"
      using assms Some True loop
      by (cases r3) (auto simp: store_create_prompt_def Let_def h2_def split: list.splits)
    then show ?thesis
      using kept dicts by (auto simp: extends_def)
  qed
qed

subsection \<open>The properties of the specification, C1 to C10\<close>

text \<open>
  C1. For every even-length history that alternates human and assistant messages, the pairing
  loop returns as many pairs as half the length of the history; the pair at position \<open>k\<close>
  holds the contents of messages \<open>2k\<close> and \<open>2k+1\<close>, in the order of the history and
  unchanged; the questions are the contents of the messages at even positions, in order.
\<close>

theorem pairing_loop_pairs_history:
  assumes "alternating ch"
  shows "pair_loop ch 0 [] [] = Inr (paired ch, asked ch)
    \<and> length (paired ch) = length ch div 2
    \<and> (\<forall>k<length ch div 2.
           paired ch ! k = (content (ch ! (2 * k)), content (ch ! (2 * k + 1)))
           \<and> asked ch ! k = content (ch ! (2 * k)))"
  using pair_loop_from [OF assms, of 0 "[]" "[]"]
  by (simp add: paired_def asked_def)

text \<open>The scenario of the specification: two turns, "A?" answered "B." and "C?" answered "D.".\<close>

theorem pairing_loop_pairs_history_witness:
  "alternating
     [\<lparr>type = HUMAN_MESSAGE_TYPE, content = ''A?''\<rparr>, \<lparr>type = AI_MESSAGE_TYPE, content = ''B.''\<rparr>,
      \<lparr>type = HUMAN_MESSAGE_TYPE, content = ''C?''\<rparr>, \<lparr>type = AI_MESSAGE_TYPE, content = ''D.''\<rparr>]
   \<and> pair_loop
     [\<lparr>type = HUMAN_MESSAGE_TYPE, content = ''A?''\<rparr>, \<lparr>type = AI_MESSAGE_TYPE, content = ''B.''\<rparr>,
      \<lparr>type = HUMAN_MESSAGE_TYPE, content = ''C?''\<rparr>, \<lparr>type = AI_MESSAGE_TYPE, content = ''D.''\<rparr>]
     0 [] []
     = Inr ([(''A?'', ''B.''), (''C?'', ''D.'')], [''A?'', ''C?''])"
proof -
  let ?ch = "[\<lparr>type = HUMAN_MESSAGE_TYPE, content = ''A?''\<rparr>, \<lparr>type = AI_MESSAGE_TYPE, content = ''B.''\<rparr>,
      \<lparr>type = HUMAN_MESSAGE_TYPE, content = ''C?''\<rparr>, \<lparr>type = AI_MESSAGE_TYPE, content = ''D.''\<rparr>]"
  have h: "alternating ?ch"
    by (simp add: alternating_def All_less_Suc)
  have two: "[0..<2] = [0, 1]"
    by (simp add: upt_rec)
  from pairing_loop_pairs_history [OF h] h show ?thesis
    by (simp add: paired_def asked_def two)
qed

text \<open>
  C2. When the history has odd length, or a message at an even index that is not a human
  message, or a message at an odd index that is not an assistant message, prompt construction
  raises the assertion failure, no prompt dictionary is returned, and the chain stops with
  that failure before the model chain is invoked: the count of model calls is unchanged.
\<close>

theorem invalid_history_fails_before_model:
  assumes "chat_history x = Some ch"
    and "odd (length ch)
       \<or> (\<exists>i<length ch. even i \<and> type (ch ! i) \<noteq> HUMAN_MESSAGE_TYPE)
       \<or> (\<exists>i<length ch. odd i \<and> type (ch ! i) \<noteq> AI_MESSAGE_TYPE)"
  shows "priv_create_prompt build_prompt T x = Inl AssertionError
    \<and> Iternlm2_create_chain sc build_prompt T mk stream x calls = (Inl AssertionError, calls)"
  using priv_create_prompt_rejects [OF assms] chain_rejects by blast

text \<open>The scenario of the specification: a history of length 3, and no model call.\<close>

theorem invalid_history_fails_before_model_witness:
  "chat_history \<lparr>chat_history = Some [\<lparr>type = HUMAN_MESSAGE_TYPE, content = ''A?''\<rparr>,
        \<lparr>type = AI_MESSAGE_TYPE, content = ''B.''\<rparr>, \<lparr>type = HUMAN_MESSAGE_TYPE, content = ''C?''\<rparr>],
      query = None, prompt_dict = None, prompt = None, prefix = None, llm_output = None\<rparr>
     = Some [\<lparr>type = HUMAN_MESSAGE_TYPE, content = ''A?''\<rparr>,
        \<lparr>type = AI_MESSAGE_TYPE, content = ''B.''\<rparr>, \<lparr>type = HUMAN_MESSAGE_TYPE, content = ''C?''\<rparr>]
   \<and> odd (length [\<lparr>type = HUMAN_MESSAGE_TYPE, content = ''A?''\<rparr>,
        \<lparr>type = AI_MESSAGE_TYPE, content = ''B.''\<rparr>, \<lparr>type = HUMAN_MESSAGE_TYPE, content = ''C?''\<rparr>])
   \<and> Iternlm2_create_chain (\<lambda>kwargs stream y. Inr (Text ''summary'')) (\<lambda>m h q. m @ q) ''system''
        None False
        \<lparr>chat_history = Some [\<lparr>type = HUMAN_MESSAGE_TYPE, content = ''A?''\<rparr>,
           \<lparr>type = AI_MESSAGE_TYPE, content = ''B.''\<rparr>, \<lparr>type = HUMAN_MESSAGE_TYPE, content = ''C?''\<rparr>],
         query = None, prompt_dict = None, prompt = None, prefix = None, llm_output = None\<rparr> 0
       = (Inl AssertionError, 0)"
proof -
  let ?ch = "[\<lparr>type = HUMAN_MESSAGE_TYPE, content = ''A?''\<rparr>,
        \<lparr>type = AI_MESSAGE_TYPE, content = ''B.''\<rparr>, \<lparr>type = HUMAN_MESSAGE_TYPE, content = ''C?''\<rparr>]"
  let ?x = "\<lparr>chat_history = Some ?ch,
      query = None, prompt_dict = None, prompt = None, prefix = None, llm_output = None\<rparr>"
  have h1: "chat_history ?x = Some ?ch"
    by simp
  have h2: "odd (length ?ch)
       \<or> (\<exists>i<length ?ch. even i \<and> type (?ch ! i) \<noteq> HUMAN_MESSAGE_TYPE)
       \<or> (\<exists>i<length ?ch. odd i \<and> type (?ch ! i) \<noteq> AI_MESSAGE_TYPE)"
    by simp
  from invalid_history_fails_before_model [OF h1 h2] h1 show ?thesis
    by simp
qed

text \<open>
  C3, as stated, at the empty history: the history has even length and nothing in it breaks
  the alternation, yet prompt construction raises \<open>IndexError\<close> and returns no prefix.
\<close>

theorem prefix_empty_history_counterexample:
  "alternating []
   \<and> priv_create_prompt (\<lambda>m h q. m @ q) ''system''
        \<lparr>chat_history = Some [], query = None, prompt_dict = None, prompt = None,
         prefix = None, llm_output = None\<rparr>
       = Inl IndexError"
  by (simp add: alternating_def priv_create_prompt_empty)

text \<open>
  C3, amended. For every non-empty even-length history that alternates human and assistant
  messages, prompt construction returns a dictionary whose prefix is the word for
  "question", then \<open>1: \<close>, then the text of the first question as it is, then a newline,
  the word for "summary" and a colon.
\<close>

theorem prefix_restates_first_question:
  assumes "chat_history x = Some ch" and "alternating ch" and "ch \<noteq> []"
  shows "\<exists>d. priv_create_prompt build_prompt T x = Inr d
    \<and> pb_prefix d = wenti @ ''1: '' @ content (ch ! 0) @ [CHR 0x0A] @ zongjie @ '':''"
  using priv_create_prompt_accepts [OF assms]
  by (simp add: expected_bundle_def expected_prefix_def)

text \<open>The scenario of the specification: the first question is "A?".\<close>

theorem prefix_restates_first_question_witness:
  "alternating
     [\<lparr>type = HUMAN_MESSAGE_TYPE, content = ''A?''\<rparr>, \<lparr>type = AI_MESSAGE_TYPE, content = ''B.''\<rparr>,
      \<lparr>type = HUMAN_MESSAGE_TYPE, content = ''C?''\<rparr>, \<lparr>type = AI_MESSAGE_TYPE, content = ''D.''\<rparr>]
   \<and> (\<exists>d. priv_create_prompt (\<lambda>m h q. m @ q) ''system''
        \<lparr>chat_history = Some
           [\<lparr>type = HUMAN_MESSAGE_TYPE, content = ''A?''\<rparr>, \<lparr>type = AI_MESSAGE_TYPE, content = ''B.''\<rparr>,
            \<lparr>type = HUMAN_MESSAGE_TYPE, content = ''C?''\<rparr>, \<lparr>type = AI_MESSAGE_TYPE, content = ''D.''\<rparr>],
         query = None, prompt_dict = None, prompt = None, prefix = None, llm_output = None\<rparr>
        = Inr d
      \<and> pb_prefix d =
          [CHR 0xE9, CHR 0x97, CHR 0xAE, CHR 0xE9, CHR 0xA2, CHR 0x98] @ ''1: A?'' @ [CHR 0x0A]
          @ [CHR 0xE6, CHR 0x80, CHR 0xBB, CHR 0xE7, CHR 0xBB, CHR 0x93] @ '':'')"
proof -
  let ?ch = "[\<lparr>type = HUMAN_MESSAGE_TYPE, content = ''A?''\<rparr>, \<lparr>type = AI_MESSAGE_TYPE, content = ''B.''\<rparr>,
      \<lparr>type = HUMAN_MESSAGE_TYPE, content = ''C?''\<rparr>, \<lparr>type = AI_MESSAGE_TYPE, content = ''D.''\<rparr>]"
  let ?x = "\<lparr>chat_history = Some ?ch,
      query = None, prompt_dict = None, prompt = None, prefix = None, llm_output = None\<rparr>"
  have h1: "chat_history ?x = Some ?ch"
    by simp
  have h2: "alternating ?ch"
    by (simp add: alternating_def All_less_Suc)
  have h3: "?ch \<noteq> []"
    by simp
  from prefix_restates_first_question [OF h1 h2 h3, of "\<lambda>m h q. m @ q" "''system''"] h2
  show ?thesis
    by (simp add: wenti_def zongjie_def)
qed

text \<open>
  C4, as stated, at the empty history, which passes the validator's checks: the chain built
  with \<open>stream = False\<close> raises \<open>IndexError\<close> and returns no string; the model is not
  invoked.
\<close>

theorem nonstreaming_empty_history_counterexample:
  "alternating []
   \<and> Iternlm2_create_chain (\<lambda>kwargs stream y. Inr (Text ''summary'')) (\<lambda>m h q. m @ q) ''system''
        None False
        \<lparr>chat_history = Some [], query = None, prompt_dict = None, prompt = None,
         prefix = None, llm_output = None\<rparr> 0
       = (Inl IndexError, 0)"
  by (simp add: alternating_def chain_rejects priv_create_prompt_empty)

text \<open>
  C4, amended. For every non-empty even-length alternating history and every text \<open>out\<close>
  the model chain returns for the request it is given, the chain built with
  \<open>stream = False\<close> returns the prefix followed by \<open>out\<close>, with nothing else changed,
  after one invocation of the model chain.
\<close>

theorem nonstreaming_output_is_prefix_plus_model_output:
  assumes "chat_history x = Some ch" and "alternating ch" and "ch \<noteq> []"
    and "sc (case mk of None \<Rightarrow> Map.empty | Some k \<Rightarrow> k) False
           (model_request x (expected_bundle build_prompt T ch)) = Inr (Text out)"
  shows "Iternlm2_create_chain sc build_prompt T mk False x calls
           = (Inr (Final (expected_prefix ch @ out)), calls + 1)"
proof -
  have built: "priv_create_prompt build_prompt T x = Inr (expected_bundle build_prompt T ch)"
    using assms(1-3) by (rule priv_create_prompt_accepts)
  from built assms(4) show ?thesis
    by (simp add: chain_text expected_bundle_def)
qed

theorem nonstreaming_output_is_prefix_plus_model_output_witness:
  "alternating [\<lparr>type = HUMAN_MESSAGE_TYPE, content = ''A?''\<rparr>, \<lparr>type = AI_MESSAGE_TYPE, content = ''B.''\<rparr>]
   \<and> Iternlm2_create_chain (\<lambda>kwargs stream y. Inr (Text ''summary'')) (\<lambda>m h q. m @ q) ''system''
        None False
        \<lparr>chat_history = Some
           [\<lparr>type = HUMAN_MESSAGE_TYPE, content = ''A?''\<rparr>, \<lparr>type = AI_MESSAGE_TYPE, content = ''B.''\<rparr>],
         query = None, prompt_dict = None, prompt = None, prefix = None, llm_output = None\<rparr> 0
       = (Inr (Final (wenti @ ''1: A?'' @ [CHR 0x0A] @ zongjie @ '':'' @ ''summary'')), 1)"
proof -
  let ?ch = "[\<lparr>type = HUMAN_MESSAGE_TYPE, content = ''A?''\<rparr>, \<lparr>type = AI_MESSAGE_TYPE, content = ''B.''\<rparr>]"
  let ?x = "\<lparr>chat_history = Some ?ch,
      query = None, prompt_dict = None, prompt = None, prefix = None, llm_output = None\<rparr>"
  let ?sc = "\<lambda>(kwargs :: model_kwargs) (stream :: bool) (y :: request). (Inr (Text ''summary'') :: error + llm_result)"
  let ?bp = "\<lambda>(m :: string) (h :: (string \<times> string) list) (q :: string). m @ q"
  have h1: "chat_history ?x = Some ?ch"
    by simp
  have h2: "alternating ?ch"
    by (simp add: alternating_def All_less_Suc)
  have h3: "?ch \<noteq> []"
    by simp
  from nonstreaming_output_is_prefix_plus_model_output
    [where x = ?x and ch = ?ch and sc = ?sc and mk = None and build_prompt = ?bp
       and T = "''system''" and out = "''summary''" and calls = 0, OF h1 h2 h3] h2
  show ?thesis
    by (simp add: expected_prefix_def)
qed

text \<open>
  C5, as stated, at the empty history, which passes the validator's checks: the chain built
  with \<open>stream = True\<close> raises \<open>IndexError\<close> and returns no sequence of chunks.
\<close>

theorem streaming_empty_history_counterexample:
  "alternating []
   \<and> Iternlm2_create_chain (\<lambda>kwargs stream y. Inr (Stream [''foo'', ''bar''] None))
        (\<lambda>m h q. m @ q) ''system'' None True
        \<lparr>chat_history = Some [], query = None, prompt_dict = None, prompt = None,
         prefix = None, llm_output = None\<rparr> 0
       = (Inl IndexError, 0)"
  by (simp add: alternating_def chain_rejects priv_create_prompt_empty)

text \<open>
  C5, amended. For every non-empty even-length alternating history and every finite sequence
  of chunks the model chain returns for the request it is given, the chain built with
  \<open>stream = True\<close> returns the sequence whose first chunk is the prefix and whose other
  chunks are the model's chunks, in their order and as they are, ending the way the model's
  sequence ends. The formatter alone does so for any prefix: with prefix "P:" and model
  chunks "foo", "bar" it yields "P:", "foo", "bar".
\<close>

theorem streaming_output_is_prefix_then_chunks:
  assumes "chat_history x = Some ch" and "alternating ch" and "ch \<noteq> []"
    and "sc (case mk of None \<Rightarrow> Map.empty | Some k \<Rightarrow> k) True
           (model_request x (expected_bundle build_prompt T ch)) = Inr (Stream chunks ending)"
  shows "Iternlm2_create_chain sc build_prompt T mk True x calls
           = (Inr (Lazy (expected_prefix ch # chunks) ending), calls + 1)
    \<and> stream_postprocess_fn (y\<lparr>prefix := Some p, llm_output := Some (Stream cs e)\<rparr>) = (p # cs, e)"
proof -
  have built: "priv_create_prompt build_prompt T x = Inr (expected_bundle build_prompt T ch)"
    using assms(1-3) by (rule priv_create_prompt_accepts)
  from built assms(4) show ?thesis
    by (simp add: chain_stream expected_bundle_def stream_postprocess_fn_def)
qed

theorem streaming_output_is_prefix_then_chunks_witness:
  "alternating [\<lparr>type = HUMAN_MESSAGE_TYPE, content = ''A?''\<rparr>, \<lparr>type = AI_MESSAGE_TYPE, content = ''B.''\<rparr>]
   \<and> Iternlm2_create_chain (\<lambda>kwargs stream y. Inr (Stream [''foo'', ''bar''] None))
        (\<lambda>m h q. m @ q) ''system'' None True
        \<lparr>chat_history = Some
           [\<lparr>type = HUMAN_MESSAGE_TYPE, content = ''A?''\<rparr>, \<lparr>type = AI_MESSAGE_TYPE, content = ''B.''\<rparr>],
         query = None, prompt_dict = None, prompt = None, prefix = None, llm_output = None\<rparr> 0
       = (Inr (Lazy [wenti @ ''1: A?'' @ [CHR 0x0A] @ zongjie @ '':'', ''foo'', ''bar''] None), 1)
   \<and> stream_postprocess_fn
        \<lparr>chat_history = None, query = None, prompt_dict = None, prompt = None,
         prefix = Some ''P:'', llm_output = Some (Stream [''foo'', ''bar''] None)\<rparr>
       = ([''P:'', ''foo'', ''bar''], None)"
proof -
  let ?ch = "[\<lparr>type = HUMAN_MESSAGE_TYPE, content = ''A?''\<rparr>, \<lparr>type = AI_MESSAGE_TYPE, content = ''B.''\<rparr>]"
  let ?x = "\<lparr>chat_history = Some ?ch,
      query = None, prompt_dict = None, prompt = None, prefix = None, llm_output = None\<rparr>"
  let ?y = "\<lparr>chat_history = None, query = None, prompt_dict = None, prompt = None,
         prefix = None, llm_output = None\<rparr>"
  let ?sc = "\<lambda>(kwargs :: model_kwargs) (stream :: bool) (y :: request).
      (Inr (Stream [''foo'', ''bar''] None) :: error + llm_result)"
  let ?bp = "\<lambda>(m :: string) (h :: (string \<times> string) list) (q :: string). m @ q"
  have h1: "chat_history ?x = Some ?ch"
    by simp
  have h2: "alternating ?ch"
    by (simp add: alternating_def All_less_Suc)
  have h3: "?ch \<noteq> []"
    by simp
  from streaming_output_is_prefix_then_chunks
    [where x = ?x and ch = ?ch and sc = ?sc and mk = None and build_prompt = ?bp
       and T = "''system''" and chunks = "[''foo'', ''bar'']" and ending = None and calls = 0
       and y = ?y and p = "''P:''" and cs = "[''foo'', ''bar'']" and e = None, OF h1 h2 h3] h2
  show ?thesis
    by (simp add: expected_prefix_def)
qed

text \<open>
  C6, as stated, at the empty history, which passes the validator's checks: prompt
  construction raises \<open>IndexError\<close> and returns no prompt.
\<close>

theorem prompt_empty_history_counterexample:
  "alternating []
   \<and> priv_create_prompt (\<lambda>m h q. m @ concat (map (\<lambda>(a, b). a @ b) h) @ q) ''system''
        \<lparr>chat_history = Some [], query = Some ''ignored'', prompt_dict = None, prompt = None,
         prefix = None, llm_output = None\<rparr>
       = Inl IndexError"
  by (simp add: alternating_def priv_create_prompt_empty)

text \<open>
  C6, amended. For every non-empty even-length alternating history, the prompt returned is
  the text \<open>build_prompt\<close> renders from the system template, the paired history and the
  query instruction, followed by the preamble in the assistant's voice, which states the
  number of turns (half the length of the history) and lists the questions numbered from 1,
  followed by the prefix.
\<close>

theorem prompt_is_template_preamble_prefix:
  assumes "chat_history x = Some ch" and "alternating ch" and "ch \<noteq> []"
  shows "priv_create_prompt build_prompt T x =
    Inr \<lparr>pb_prompt =
           build_prompt T (paired ch) Iternlm2_query_input @ preamble ch @ expected_prefix ch,
         pb_prefix = expected_prefix ch\<rparr>"
  using priv_create_prompt_accepts [OF assms]
  by (simp add: expected_bundle_def)

text \<open>Two turns, with a renderer that writes the template, the turns and the query.\<close>

theorem prompt_is_template_preamble_prefix_witness:
  "alternating
     [\<lparr>type = HUMAN_MESSAGE_TYPE, content = ''A?''\<rparr>, \<lparr>type = AI_MESSAGE_TYPE, content = ''B.''\<rparr>,
      \<lparr>type = HUMAN_MESSAGE_TYPE, content = ''C?''\<rparr>, \<lparr>type = AI_MESSAGE_TYPE, content = ''D.''\<rparr>]
   \<and> priv_create_prompt (\<lambda>m h q. m @ concat (map (\<lambda>(a, b). a @ b) h) @ q) ''system''
        \<lparr>chat_history = Some
           [\<lparr>type = HUMAN_MESSAGE_TYPE, content = ''A?''\<rparr>, \<lparr>type = AI_MESSAGE_TYPE, content = ''B.''\<rparr>,
            \<lparr>type = HUMAN_MESSAGE_TYPE, content = ''C?''\<rparr>, \<lparr>type = AI_MESSAGE_TYPE, content = ''D.''\<rparr>],
         query = None, prompt_dict = None, prompt = None, prefix = None, llm_output = None\<rparr>
       = Inr \<lparr>pb_prompt =
               ''system'' @ ''A?B.C?D.'' @ Iternlm2_query_input
               @ assist_opening @ ''2'' @ assist_turns @ '':'' @ [CHR 0x0A]
               @ wenti @ ''1: A?'' @ [CHR 0x0A] @ wenti @ ''2: C?'' @ [CHR 0x0A]
               @ [CHR 0x0A] @ assist_closing @ '':'' @ [CHR 0x0A]
               @ wenti @ ''1: A?'' @ [CHR 0x0A] @ zongjie @ '':'',
             pb_prefix = wenti @ ''1: A?'' @ [CHR 0x0A] @ zongjie @ '':''\<rparr>"
proof -
  let ?ch = "[\<lparr>type = HUMAN_MESSAGE_TYPE, content = ''A?''\<rparr>, \<lparr>type = AI_MESSAGE_TYPE, content = ''B.''\<rparr>,
      \<lparr>type = HUMAN_MESSAGE_TYPE, content = ''C?''\<rparr>, \<lparr>type = AI_MESSAGE_TYPE, content = ''D.''\<rparr>]"
  let ?x = "\<lparr>chat_history = Some ?ch,
      query = None, prompt_dict = None, prompt = None, prefix = None, llm_output = None\<rparr>"
  have h1: "chat_history ?x = Some ?ch"
    by simp
  have h2: "alternating ?ch"
    by (simp add: alternating_def All_less_Suc)
  have h3: "?ch \<noteq> []"
    by simp
  have two: "[0..<2] = [0, 1]"
    by (simp add: upt_rec)
  have digits: "str_int (Suc 0) = ''1''" "str_int (Suc (Suc 0)) = ''2''"
    by (simp_all add: str_int.simps digit_def)
  from prompt_is_template_preamble_prefix
    [OF h1 h2 h3, of "\<lambda>m h q. m @ concat (map (\<lambda>(a, b). a @ b) h) @ q" "''system''"] h2
  show ?thesis
    by (simp add: paired_def asked_def preamble_def numbered_list_def expected_prefix_def
        two digits)
qed

text \<open>
  C7. Prompt construction does not change its input. After \<open>_create_prompt\<close> runs, with a
  result or with an exception, every message, the list \<open>chat_history\<close> and the request
  dictionary are in the store as they were, so the history reads the same; the dictionary
  returned is a new object at an address that was not in use, and it is the dictionary the
  value-level \<open>_create_prompt\<close> computes. \<open>create_chain\<close> of the Claude family hands to the
  inherited chain a new request dictionary that points to the same history, in a store
  where every earlier object is as it was.
\<close>

theorem prompt_construction_leaves_request_alone:
  assumes "store_create_prompt build_prompt T h xa = (r, h')"
  shows "extends h h'
    \<and> (\<forall>la. history_at h' la = history_at h la)
    \<and> (\<forall>a. r = Inr a \<longrightarrow> length (prompt_dicts h) \<le> a \<and> a < length (prompt_dicts h'))
    \<and> (\<forall>x :: request.
          chat_history x = map_option (history_at h) (chat_history_ref (request_dicts h ! xa))
          \<longrightarrow> priv_create_prompt build_prompt T x = map_sum id (\<lambda>a. prompt_dicts h' ! a) r)
    \<and> (\<exists>hc. store_Claude2_create_chain sc cls mk stream h xa
                = sc cls mk stream hc (length (request_dicts h))
          \<and> extends h hc
          \<and> (\<forall>la. history_at hc la = history_at h la)
          \<and> chat_history_ref (request_dicts hc ! length (request_dicts h))
              = chat_history_ref (request_dicts h ! xa))"
proof -
  from store_create_prompt_frame [OF assms]
  have kept: "extends h h'"
    and fresh: "\<forall>a. r = Inr a \<longrightarrow> length (prompt_dicts h) \<le> a \<and> a < length (prompt_dicts h')"
    by simp_all
  from kept have same: "\<forall>la. history_at h' la = history_at h la"
    by (simp add: extends_def history_at_def)
  have pure: "\<forall>x :: request.
          chat_history x = map_option (history_at h) (chat_history_ref (request_dicts h ! xa))
          \<longrightarrow> priv_create_prompt build_prompt T x = map_sum id (\<lambda>a. prompt_dicts h' ! a) r"
    using store_create_prompt_refines [OF assms] by blast
  define hc where "hc = h\<lparr>request_dicts := request_dicts h
      @ [(request_dicts h ! xa)\<lparr>query_entry := Some Claude2_query_input\<rparr>]\<rparr>"
  have "store_Claude2_create_chain sc cls mk stream h xa
                = sc cls mk stream hc (length (request_dicts h))"
    by (simp add: store_Claude2_create_chain_def hc_def Let_def)
  moreover have "extends h hc"
    by (simp add: extends_def hc_def)
  moreover have "\<forall>la. history_at hc la = history_at h la"
    by (simp add: history_at_def hc_def)
  moreover have "chat_history_ref (request_dicts hc ! length (request_dicts h))
              = chat_history_ref (request_dicts h ! xa)"
    by (simp add: hc_def)
  ultimately show ?thesis
    using kept fresh same pure by blast
qed

text \<open>One turn: the store before the call holds the request, the history and its two messages.\<close>

theorem prompt_construction_leaves_request_alone_witness:
  "store_create_prompt (\<lambda>m h q. m @ q) ''system''
      \<lparr>messages = [\<lparr>type = HUMAN_MESSAGE_TYPE, content = ''A?''\<rparr>,
                   \<lparr>type = AI_MESSAGE_TYPE, content = ''B.''\<rparr>],
       message_lists = [[0, 1]], pair_lists = [], string_lists = [], prompt_dicts = [],
       request_dicts = [\<lparr>chat_history_ref = Some 0, query_entry = None\<rparr>]\<rparr> 0
     = (Inr 0,
        \<lparr>messages = [\<lparr>type = HUMAN_MESSAGE_TYPE, content = ''A?''\<rparr>,
                     \<lparr>type = AI_MESSAGE_TYPE, content = ''B.''\<rparr>],
         message_lists = [[0, 1]], pair_lists = [[(''A?'', ''B.'')]], string_lists = [[''A?'']],
         prompt_dicts =
           [\<lparr>pb_prompt = ''system'' @ Iternlm2_query_input @ assist_opening @ ''1''
                @ assist_turns @ '':'' @ [CHR 0x0A] @ wenti @ ''1: A?'' @ [CHR 0x0A] @ [CHR 0x0A]
                @ assist_closing @ '':'' @ [CHR 0x0A] @ wenti @ ''1: A?'' @ [CHR 0x0A]
                @ zongjie @ '':'',
              pb_prefix = wenti @ ''1: A?'' @ [CHR 0x0A] @ zongjie @ '':''\<rparr>],
         request_dicts = [\<lparr>chat_history_ref = Some 0, query_entry = None\<rparr>]\<rparr>)
   \<and> history_at
        \<lparr>messages = [\<lparr>type = HUMAN_MESSAGE_TYPE, content = ''A?''\<rparr>,
                     \<lparr>type = AI_MESSAGE_TYPE, content = ''B.''\<rparr>],
         message_lists = [[0, 1]], pair_lists = [[(''A?'', ''B.'')]], string_lists = [[''A?'']],
         prompt_dicts =
           [\<lparr>pb_prompt = ''system'' @ Iternlm2_query_input @ assist_opening @ ''1''
                @ assist_turns @ '':'' @ [CHR 0x0A] @ wenti @ ''1: A?'' @ [CHR 0x0A] @ [CHR 0x0A]
                @ assist_closing @ '':'' @ [CHR 0x0A] @ wenti @ ''1: A?'' @ [CHR 0x0A]
                @ zongjie @ '':'',
              pb_prefix = wenti @ ''1: A?'' @ [CHR 0x0A] @ zongjie @ '':''\<rparr>],
         request_dicts = [\<lparr>chat_history_ref = Some 0, query_entry = None\<rparr>]\<rparr> 0
       = [\<lparr>type = HUMAN_MESSAGE_TYPE, content = ''A?''\<rparr>, \<lparr>type = AI_MESSAGE_TYPE, content = ''B.''\<rparr>]"
proof -
  let ?h = "\<lparr>messages = [\<lparr>type = HUMAN_MESSAGE_TYPE, content = ''A?''\<rparr>,
                   \<lparr>type = AI_MESSAGE_TYPE, content = ''B.''\<rparr>],
       message_lists = [[0, 1]], pair_lists = [], string_lists = [], prompt_dicts = [],
       request_dicts = [\<lparr>chat_history_ref = Some 0, query_entry = None\<rparr>]\<rparr>"
  let ?d = "\<lparr>pb_prompt = ''system'' @ Iternlm2_query_input @ assist_opening @ ''1''
                @ assist_turns @ '':'' @ [CHR 0x0A] @ wenti @ ''1: A?'' @ [CHR 0x0A] @ [CHR 0x0A]
                @ assist_closing @ '':'' @ [CHR 0x0A] @ wenti @ ''1: A?'' @ [CHR 0x0A]
                @ zongjie @ '':'',
              pb_prefix = wenti @ ''1: A?'' @ [CHR 0x0A] @ zongjie @ '':''\<rparr>"
  let ?h' = "\<lparr>messages = [\<lparr>type = HUMAN_MESSAGE_TYPE, content = ''A?''\<rparr>,
                     \<lparr>type = AI_MESSAGE_TYPE, content = ''B.''\<rparr>],
         message_lists = [[0, 1]], pair_lists = [[(''A?'', ''B.'')]], string_lists = [[''A?'']],
         prompt_dicts = [?d],
         request_dicts = [\<lparr>chat_history_ref = Some 0, query_entry = None\<rparr>]\<rparr>"
  have digit: "str_int (Suc 0) = ''1''"
    by (simp add: str_int.simps digit_def)
  have run: "store_create_prompt (\<lambda>m h q. m @ q) ''system'' ?h 0 = (Inr 0, ?h')"
    by (simp add: store_create_prompt_def store_pair_loop.simps Let_def digit)
  from prompt_construction_leaves_request_alone [OF run] run show ?thesis
    by (simp add: history_at_def)
qed

text \<open>
  C8. The three classes of the Claude family have the model identifiers
  \<open>anthropic.claude-v2\<close>, \<open>anthropic.claude-v2:1\<close> and \<open>anthropic.claude-instant-v1\<close> and
  differ in nothing else. Without overrides, each invokes the model with
  \<open>max_tokens_to_sample = 2000\<close>, \<open>temperature = 0.1\<close>, \<open>top_p = 0.9\<close> and the same query
  instruction; with an override of \<open>temperature\<close> alone, \<open>max_tokens_to_sample\<close> is still
  2000.
\<close>

theorem Claude_variants_share_defaults:
  "map model_id (Claude_variants M)
     = [''anthropic.claude-v2'', ''anthropic.claude-v2:1'', ''anthropic.claude-instant-v1'']
   \<and> (\<forall>cls \<in> set (Claude_variants M).
        cls = (Claude2MKTConversationSummaryChain M)\<lparr>model_id := model_id cls\<rparr>
        \<and> Claude2_create_chain (Claude2ChatChain_create_chain model) cls None stream x
            = model (model_id cls)
                [''max_tokens_to_sample'' \<mapsto> PyInt 2000,
                 ''temperature'' \<mapsto> PyFloat (1 / 10),
                 ''top_p'' \<mapsto> PyFloat (9 / 10)]
                stream (x\<lparr>query := Some Claude2_query_input\<rparr>)
        \<and> Claude2_create_chain (Claude2ChatChain_create_chain model) cls
              (Some [''temperature'' \<mapsto> t]) stream x
            = model (model_id cls)
                [''max_tokens_to_sample'' \<mapsto> PyInt 2000,
                 ''temperature'' \<mapsto> t,
                 ''top_p'' \<mapsto> PyFloat (9 / 10)]
                stream (x\<lparr>query := Some Claude2_query_input\<rparr>))"
proof -
  have merged: "[''max_tokens_to_sample'' \<mapsto> PyInt 2000, ''top_p'' \<mapsto> PyFloat (9 / 10),
        ''temperature'' \<mapsto> t]
      = [''max_tokens_to_sample'' \<mapsto> PyInt 2000, ''temperature'' \<mapsto> t,
         ''top_p'' \<mapsto> PyFloat (9 / 10)]"
    by (rule ext) simp
  show ?thesis
    by (simp add: Claude_variants_def Claude2MKTConversationSummaryChain_def
        Claude21MKTConversationSummaryChain_def ClaudeInstanceMKTConversationSummaryChain_def
        Claude2_create_chain_def Claude2ChatChain_create_chain_def merged)
qed

theorem Claude_variants_share_defaults_witness:
  "Claude21MKTConversationSummaryChain ''mkt'' \<in> set (Claude_variants ''mkt'')
   \<and> Claude2_create_chain
        (Claude2ChatChain_create_chain
           (\<lambda>name kwargs stream y.
              (name, kwargs ''max_tokens_to_sample'', kwargs ''temperature'', kwargs ''top_p'', query y)))
        (Claude21MKTConversationSummaryChain ''mkt'') (Some [''temperature'' \<mapsto> PyFloat (1 / 10)]) False
        \<lparr>chat_history = Some [], query = Some ''caller text'', prompt_dict = None, prompt = None,
         prefix = None, llm_output = None\<rparr>
       = (''anthropic.claude-v2:1'', Some (PyInt 2000), Some (PyFloat (1 / 10)),
          Some (PyFloat (9 / 10)), Some Claude2_query_input)"
proof -
  have member: "Claude21MKTConversationSummaryChain ''mkt'' \<in> set (Claude_variants ''mkt'')"
    by (simp add: Claude_variants_def)
  have name: "model_id (Claude21MKTConversationSummaryChain ''mkt'') = ''anthropic.claude-v2:1''"
    by (simp add: Claude21MKTConversationSummaryChain_def)
  from Claude_variants_share_defaults
    [where M = "''mkt''" and t = "PyFloat (1 / 10)" and stream = False
       and x = "\<lparr>chat_history = Some [], query = Some ''caller text'', prompt_dict = None,
         prompt = None, prefix = None, llm_output = None\<rparr>"
       and model = "\<lambda>name kwargs stream y.
              (name, kwargs ''max_tokens_to_sample'', kwargs ''temperature'', kwargs ''top_p'', query y)"]
    member name
  show ?thesis
    by simp
qed

text \<open>
  C9. The empty history passes every check of the validator: its length is even and the
  pairing loop ends without a failed assertion, with no pair and no question. Prompt
  construction then fails with \<open>IndexError\<close>, where the prefix reads the first question,
  so no prompt dictionary is returned, and the chain stops with that error.
\<close>

theorem empty_history_passes_checks_then_fails:
  "alternating []
   \<and> length ([] :: message list) mod 2 = 0
   \<and> pair_loop [] 0 [] [] = Inr ([], [])
   \<and> priv_create_prompt build_prompt T (x\<lparr>chat_history := Some []\<rparr>) = Inl IndexError
   \<and> Iternlm2_create_chain sc build_prompt T mk stream (x\<lparr>chat_history := Some []\<rparr>) calls
       = (Inl IndexError, calls)"
  by (simp add: alternating_def pair_loop.simps priv_create_prompt_empty chain_rejects)

theorem empty_history_passes_checks_then_fails_witness:
  "alternating []
   \<and> priv_create_prompt (\<lambda>m h q. q) [] 
        \<lparr>chat_history = Some [], query = None, prompt_dict = None, prompt = None,
         prefix = None, llm_output = None\<rparr> = Inl IndexError
   \<and> Iternlm2_create_chain (\<lambda>kwargs stream y. Inr (Text ''never returned'')) (\<lambda>m h q. q) []
        (Some Map.empty) True
        \<lparr>chat_history = Some [], query = None, prompt_dict = None, prompt = None,
         prefix = None, llm_output = None\<rparr> 7
       = (Inl IndexError, 7)"
  using empty_history_passes_checks_then_fails
    [where x = "\<lparr>chat_history = None, query = None, prompt_dict = None, prompt = None,
         prefix = None, llm_output = None\<rparr>"
       and build_prompt = "\<lambda>m h q. q" and T = "[]"
       and sc = "\<lambda>kwargs stream y. Inr (Text ''never returned'')"
       and mk = "Some Map.empty" and stream = True and calls = 7]
  by simp

text \<open>
  C10. Whatever chain the Claude family inherits, it receives a request whose \<open>query\<close> is the
  family's instruction; a \<open>query\<close> supplied by the caller, if any, is replaced, so the result
  does not depend on it.
\<close>

theorem Claude_query_is_replaced:
  "Claude2_create_chain sc cls mk stream x
     = sc cls mk stream (x\<lparr>query := Some Claude2_query_input\<rparr>)
   \<and> query (x\<lparr>query := Some Claude2_query_input\<rparr>) = Some Claude2_query_input
   \<and> Claude2_create_chain sc cls mk stream (x\<lparr>query := q\<rparr>)
     = Claude2_create_chain sc cls mk stream x"
  by (simp add: Claude2_create_chain_def)

end
